theory Spec2Isabelle
  imports Complex_Main
begin

section \<open>Exceptions and string formatting\<close>

text \<open>
  An exception is a class and a message. \<open>except Exception\<close> catches every class but the
  two that derive from \<open>BaseException\<close> only.
\<close>

datatype exn_class =
  AttributeError | ImportError | OSError | RuntimeError | ValueError | TypeError
  | KeyboardInterrupt | SystemExit

fun is_Exception :: "exn_class \<Rightarrow> bool" where
  "is_Exception KeyboardInterrupt = False"
| "is_Exception SystemExit = False"
| "is_Exception _ = True"

datatype exn = Exn (class_of: exn_class) (str_of: string)

subsection \<open>Formatting of \<open>%d\<close> and of f-strings\<close>

fun str_nat :: "nat \<Rightarrow> string" where
  "str_nat n =
     (if n < 10 then [''0123456789'' ! n]
      else str_nat (n div 10) @ [''0123456789'' ! (n mod 10)])"

definition str_int :: "int \<Rightarrow> string" where
  "str_int i = (if i < 0 then ''-'' @ str_nat (nat (- i)) else str_nat (nat i))"

definition str_bool :: "bool \<Rightarrow> string" where
  "str_bool b = (if b then ''True'' else ''False'')"



section \<open>The health responder (\<open>HealthCheckHandler\<close>)\<close>


















section \<open>External calls and the event trace\<close>

text \<open>
  The bot talks to three libraries: python-telegram-bot (\<open>Application\<close>), the standard
  HTTP server and \<open>threading\<close>. Each library call may raise.
\<close>

datatype callback =
  handle_new_chat_members | start_command | help_command | about_command | dev_command
  | handle_message | handle_edited_message | stats_command | deploy_command | error_handler

datatype filter_expr =
  NEW_CHAT_MEMBERS | TEXT | COMMAND | EDITED_MESSAGE
  | And_filter filter_expr filter_expr
  | Not_filter filter_expr

datatype handler =
  CommandHandler string callback
  | MessageHandler filter_expr callback

record application =
  token :: string
  handlers :: "handler list"
  error_handlers :: "callback list"

datatype request_handler = HealthCheckHandler

record http_server =
  server_address :: "string \<times> int"
  RequestHandlerClass :: request_handler

datatype thread_target = serve_forever http_server

record polling_config =
  poll_interval :: real
  timeout :: int
  read_timeout :: int
  write_timeout :: int
  connect_timeout :: int
  pool_timeout :: int
  drop_pending_updates :: bool

text \<open>
  The library calls the program makes, with their arguments. \<open>Thread_start target daemon\<close>
  is the construction of a \<open>threading.Thread\<close> with these two arguments followed by its
  \<open>start()\<close>; \<open>Thread_join\<close> is in the alphabet so that its absence from a trace can
  be stated.
\<close>

datatype call =
  Application_build string
  | add_handler handler
  | add_error_handler callback
  | HTTPServer "string \<times> int" request_handler
  | Thread_start thread_target bool
  | Thread_join thread_target
  | run_polling polling_config

datatype level = INFO | WARNING | ERROR

datatype event =
  Called call "exn option"
  | Logged level string

text \<open>
  The world decides, from everything that has happened so far, whether a library call
  raises (\<open>Some e\<close>) or returns (\<open>None\<close>). Nothing is assumed about it.
\<close>

type_synonym world = "event list \<Rightarrow> call \<Rightarrow> exn option"

text \<open>
  The module-level names \<open>BOT_TOKEN\<close>, \<open>PORT\<close> and \<open>HEALTH_CHECK_ENABLED\<close> are bound once,
  when the module is imported, and only read afterwards; the \<open>config\<close> module they come
  from is not among the sources, so they are parameters. \<open>HEALTH_CHECK_ENABLED\<close> is used
  in conditions only and stands for its truth value.
\<close>

record config =
  BOT_TOKEN :: string
  PORT :: int
  HEALTH_CHECK_ENABLED :: bool

record bot =
  application :: "application option"
  health_server :: "http_server option"

record state =
  trace :: "event list"
  self :: bot

definition extcall :: "world \<Rightarrow> call \<Rightarrow> event list \<Rightarrow> event list" where
  "extcall w c tr = tr @ [Called c (w tr c)]"

definition logger :: "level \<Rightarrow> string \<Rightarrow> event list \<Rightarrow> event list" where
  "logger l m tr = tr @ [Logged l m]"

section \<open>The bot lifecycle (\<open>TelegramBot\<close>)\<close>

text \<open>
  A method takes the state (the trace so far and the fields of \<open>self\<close>) and returns
  the state it leaves together with \<open>Inl e\<close> when it raises \<open>e\<close> and \<open>Inr ()\<close> when
  it returns. Fields assigned before an exception stay assigned.
\<close>

type_synonym result = "(exn + unit) \<times> state"

subsection \<open>\<open>setup_bot\<close>\<close>

text \<open>
  The nine \<open>add_handler\<close> statements in the order of the source. A statement runs only
  if all statements before it returned; a handler is in the application's list once its
  \<open>add_handler\<close> has returned.
\<close>

definition registrations :: "handler list" where
  "registrations =
     [CommandHandler ''start'' start_command,
      CommandHandler ''help'' help_command,
      CommandHandler ''about'' about_command,
      CommandHandler ''dev'' dev_command,
      CommandHandler ''stats'' stats_command,
      CommandHandler ''deploy'' deploy_command,
      MessageHandler NEW_CHAT_MEMBERS handle_new_chat_members,
      MessageHandler (And_filter TEXT (Not_filter COMMAND)) handle_message,
      MessageHandler EDITED_MESSAGE handle_edited_message]"

fun add_handlers ::
  "world \<Rightarrow> handler list \<Rightarrow> event list \<Rightarrow> application \<Rightarrow> (exn + unit) \<times> event list \<times> application"
where
  "add_handlers w [] tr a = (Inr (), tr, a)"
| "add_handlers w (h # hs) tr a =
     (case w tr (add_handler h) of
        Some e \<Rightarrow> (Inl e, extcall w (add_handler h) tr, a)
      | None \<Rightarrow>
          add_handlers w hs (extcall w (add_handler h) tr) (a\<lparr>handlers := handlers a @ [h]\<rparr>))"

definition setup_bot_try :: "config \<Rightarrow> world \<Rightarrow> state \<Rightarrow> result" where
  "setup_bot_try cfg w s =
     (let c = Application_build (BOT_TOKEN cfg); tr1 = extcall w c (trace s) in
      case w (trace s) c of
        Some e \<Rightarrow> (Inl e, s\<lparr>trace := tr1\<rparr>)
      | None \<Rightarrow>
          (let a0 = \<lparr>token = BOT_TOKEN cfg, handlers = [], error_handlers = []\<rparr> in
           case add_handlers w registrations tr1 a0 of
             (Inl e, tr2, a) \<Rightarrow> (Inl e, \<lparr>trace = tr2, self = (self s)\<lparr>application := Some a\<rparr>\<rparr>)
           | (Inr u, tr2, a) \<Rightarrow>
               (let c' = add_error_handler error_handler; tr3 = extcall w c' tr2 in
                case w tr2 c' of
                  Some e \<Rightarrow> (Inl e, \<lparr>trace = tr3, self = (self s)\<lparr>application := Some a\<rparr>\<rparr>)
                | None \<Rightarrow>
                    (Inr (),
                     \<lparr>trace = logger INFO ''Bot handlers configured successfully'' tr3,
                      self = (self s)\<lparr>application :=
                               Some (a\<lparr>error_handlers := error_handlers a @ [error_handler]\<rparr>)\<rparr>\<rparr>))))"

definition setup_bot :: "config \<Rightarrow> world \<Rightarrow> state \<Rightarrow> result" where
  "setup_bot cfg w s =
     (case setup_bot_try cfg w s of
        (Inl e, s') \<Rightarrow>
          (if is_Exception (class_of e)
           then (Inl e, s'\<lparr>trace := logger ERROR (''Failed to setup bot: '' @ str_of e) (trace s')\<rparr>)
           else (Inl e, s'))
      | (Inr u, s') \<Rightarrow> (Inr u, s'))"

subsection \<open>\<open>setup_health_server\<close>\<close>

definition setup_health_server_try :: "config \<Rightarrow> world \<Rightarrow> state \<Rightarrow> result" where
  "setup_health_server_try cfg w s =
     (let c = HTTPServer (''0.0.0.0'', PORT cfg) HealthCheckHandler; tr1 = extcall w c (trace s) in
      case w (trace s) c of
        Some e \<Rightarrow> (Inl e, s\<lparr>trace := tr1\<rparr>)
      | None \<Rightarrow>
          (let srv = \<lparr>server_address = (''0.0.0.0'', PORT cfg), RequestHandlerClass = HealthCheckHandler\<rparr>;
               b1 = (self s)\<lparr>health_server := Some srv\<rparr>;
               c' = Thread_start (serve_forever srv) True;
               tr2 = extcall w c' tr1 in
           case w tr1 c' of
             Some e \<Rightarrow> (Inl e, \<lparr>trace = tr2, self = b1\<rparr>)
           | None \<Rightarrow>
               (Inr (),
                \<lparr>trace = logger INFO (''Health check server started on port '' @ str_int (PORT cfg)) tr2,
                 self = b1\<rparr>)))"

definition setup_health_server :: "config \<Rightarrow> world \<Rightarrow> state \<Rightarrow> result" where
  "setup_health_server cfg w s =
     (case setup_health_server_try cfg w s of
        (Inl e, s') \<Rightarrow>
          (if is_Exception (class_of e)
           then (Inr (), s'\<lparr>trace := logger WARNING (''Could not start health server: '' @ str_of e) (trace s')\<rparr>)
           else (Inl e, s'))
      | (Inr u, s') \<Rightarrow> (Inr u, s'))"

subsection \<open>\<open>start\<close>\<close>

definition polling_args :: polling_config where
  "polling_args =
     \<lparr>poll_interval = 1.0, timeout = 10, read_timeout = 10, write_timeout = 10,
      connect_timeout = 10, pool_timeout = 10, drop_pending_updates = True\<rparr>"

definition start_try :: "config \<Rightarrow> world \<Rightarrow> state \<Rightarrow> result" where
  "start_try cfg w s =
     (if application (self s) = None
      then (Inl (Exn RuntimeError ''Bot application not properly initialized''), s)
      else
        (case (if HEALTH_CHECK_ENABLED cfg \<and> health_server (self s) = None
               then setup_health_server cfg w s else (Inr (), s)) of
           (Inl e, s1) \<Rightarrow> (Inl e, s1)
         | (Inr u, s1) \<Rightarrow>
             (let tr1 = logger INFO ''Starting Joker's Telegram Bot...'' (trace s1);
                  tr2 = logger INFO (''Health check enabled: '' @ str_bool (HEALTH_CHECK_ENABLED cfg)) tr1;
                  tr3 = logger INFO (''Port configured: '' @ str_int (PORT cfg)) tr2;
                  c = run_polling polling_args in
              case w tr3 c of
                Some e \<Rightarrow> (Inl e, s1\<lparr>trace := extcall w c tr3\<rparr>)
              | None \<Rightarrow> (Inr (), s1\<lparr>trace := extcall w c tr3\<rparr>))))"

definition start :: "config \<Rightarrow> world \<Rightarrow> state \<Rightarrow> result" where
  "start cfg w s =
     (case start_try cfg w s of
        (Inl e, s') \<Rightarrow>
          (if is_Exception (class_of e)
           then (Inl e, s'\<lparr>trace := logger ERROR (''Error starting bot: '' @ str_of e) (trace s')\<rparr>)
           else (Inl e, s'))
      | (Inr u, s') \<Rightarrow> (Inr u, s'))"

subsection \<open>\<open>__init__\<close>\<close>

text \<open>
  The constructor works on a new object. When it raises, the caller receives the
  exception and no object: the result is \<open>Inl e\<close> and the trace.
\<close>

definition init :: "config \<Rightarrow> world \<Rightarrow> event list \<Rightarrow> (exn + bot) \<times> event list" where
  "init cfg w tr =
     (case setup_bot cfg w \<lparr>trace = tr, self = \<lparr>application = None, health_server = None\<rparr>\<rparr> of
        (Inl e, s1) \<Rightarrow> (Inl e, trace s1)
      | (Inr u, s1) \<Rightarrow>
          (if HEALTH_CHECK_ENABLED cfg then
             (case setup_health_server cfg w s1 of
                (Inl e, s2) \<Rightarrow> (Inl e, trace s2)
              | (Inr u', s2) \<Rightarrow> (Inr (self s2), trace s2))
           else (Inr (self s1), trace s1)))"

text \<open>
  Modelled from the spec: the process entry point, which is not among the sources. The
  spec's control flow is setup, then \<open>start()\<close> "called after successful \<open>setup()\<close>", and an
  exception escaping either reaches the entry point: the bot is constructed from an empty
  history and, only if construction returned an object, started.
\<close>

definition main :: "config \<Rightarrow> world \<Rightarrow> (exn + unit) \<times> event list" where
  "main cfg w =
     (case init cfg w [] of
        (Inl e, tr) \<Rightarrow> (Inl e, tr)
      | (Inr b, tr) \<Rightarrow>
          (case start cfg w \<lparr>trace = tr, self = b\<rparr> of (r, s) \<Rightarrow> (r, trace s)))"

subsection \<open>Observations on traces\<close>

fun is_run_polling :: "event \<Rightarrow> bool" where
  "is_run_polling (Called (run_polling c) r) = True"
| "is_run_polling _ = False"

fun is_HTTPServer :: "event \<Rightarrow> bool" where
  "is_HTTPServer (Called (HTTPServer a h) r) = True"
| "is_HTTPServer _ = False"

fun is_Thread_start :: "event \<Rightarrow> bool" where
  "is_Thread_start (Called (Thread_start t d) r) = True"
| "is_Thread_start _ = False"

fun is_Thread_join :: "event \<Rightarrow> bool" where
  "is_Thread_join (Called (Thread_join t) r) = True"
| "is_Thread_join _ = False"

fun is_setup_call :: "event \<Rightarrow> bool" where
  "is_setup_call (Called (Application_build t) r) = True"
| "is_setup_call (Called (add_handler h) r) = True"
| "is_setup_call (Called (add_error_handler c) r) = True"
| "is_setup_call _ = False"

fun raised :: "event \<Rightarrow> exn option" where
  "raised (Called c r) = r"
| "raised (Logged l m) = None"

text \<open>
  What a method adds to the trace, and the exceptions that setup calls raised in a trace.
\<close>

definition new_events :: "event list \<Rightarrow> event list \<Rightarrow> event list" where
  "new_events before after = drop (length before) after"

fun setup_failures :: "event list \<Rightarrow> exn list" where
  "setup_failures [] = []"
| "setup_failures (ev # evs) =
     (if is_setup_call ev then (case raised ev of Some e \<Rightarrow> [e] | None \<Rightarrow> []) else [])
     @ setup_failures evs"

definition servers_created :: "event list \<Rightarrow> nat" where
  "servers_created tr = length (filter (\<lambda>ev. is_HTTPServer ev \<and> raised ev = None) tr)"

subsection \<open>The events of each phase\<close>

text \<open>
  The events that setup, the health-server setup and polling can add to a trace: log
  records and, for each phase, its own library calls with the arguments the source gives
  them. The lemmas on traces below are stated with these predicates.
\<close>

fun is_Logged :: "event \<Rightarrow> bool" where
  "is_Logged (Logged l m) = True"
| "is_Logged _ = False"

definition setup_event :: "event \<Rightarrow> bool" where
  "setup_event ev = (is_setup_call ev \<or> is_Logged ev)"

fun health_event :: "config \<Rightarrow> event \<Rightarrow> bool" where
  "health_event cfg (Logged l m) = True"
| "health_event cfg (Called (HTTPServer a h) r) =
     (a = (''0.0.0.0'', PORT cfg) \<and> h = HealthCheckHandler)"
| "health_event cfg (Called (Thread_start t d) r) =
     (d \<and> t = serve_forever
        \<lparr>server_address = (''0.0.0.0'', PORT cfg), RequestHandlerClass = HealthCheckHandler\<rparr>)"
| "health_event cfg _ = False"

fun polling_event :: "event \<Rightarrow> bool" where
  "polling_event (Logged l m) = True"
| "polling_event (Called (run_polling c) r) = (c = polling_args)"
| "polling_event _ = False"

section \<open>The health-check flag\<close>

text \<open>
  \<open>from config import HEALTH_CHECK_ENABLED\<close> gives the attribute of the (already imported)
  \<open>config\<close> module when it has one and raises \<open>ImportError\<close> otherwise; the fallback is
  \<open>bool(os.getenv('RENDER') or os.getenv('RENDER_SERVICE_ID'))\<close>. \<open>os.getenv\<close> returns
  \<open>None\<close> or a string; \<open>None\<close> and the empty string are falsy, and \<open>a or b\<close> is \<open>a\<close>
  when \<open>a\<close> is truthy and \<open>b\<close> otherwise. The \<open>config\<close> module is not among the sources:
  its attribute, if any, is the parameter \<open>attr\<close>.
\<close>

type_synonym environ = "string \<Rightarrow> string option"

definition getenv :: "environ \<Rightarrow> string \<Rightarrow> string option" where
  "getenv env k = env k"

definition truthy :: "string option \<Rightarrow> bool" where
  "truthy v = (case v of None \<Rightarrow> False | Some s \<Rightarrow> s \<noteq> [])"

definition py_or :: "string option \<Rightarrow> string option \<Rightarrow> string option" where
  "py_or a b = (if truthy a then a else b)"

definition import_HEALTH_CHECK_ENABLED :: "bool option \<Rightarrow> environ \<Rightarrow> bool" where
  "import_HEALTH_CHECK_ENABLED attr env =
     (case attr of
        Some v \<Rightarrow> v
      | None \<Rightarrow> truthy (py_or (getenv env ''RENDER'') (getenv env ''RENDER_SERVICE_ID'')))"

section \<open>The predicates of the message handlers\<close>

text \<open>
  The filters are objects of python-telegram-bot; the program combines them with \<open>&\<close> and
  \<open>~\<close>. Their meaning is the library's. A filter is asked about an update; it answers no
  unless the update carries a message, an edited message, a channel post or an edited
  channel post, and a message filter then looks at the update's effective message, the
  first of these four that is present. \<open>TEXT\<close> holds when the effective message has
  non-empty text, \<open>COMMAND\<close> when its first entity is a bot command at offset 0,
  \<open>NEW_CHAT_MEMBERS\<close> when its list of new members is non-empty, and \<open>EDITED_MESSAGE\<close> when
  the update carries an edited message. An update of any other kind (a callback query, a
  poll) carries none of the four, and no filter matches it. Later releases of the library
  add business messages to the four; for the filters used here they behave as channel
  posts do. Only the fields that these filters read are in the records.
\<close>

datatype entity_type = BOT_COMMAND | MENTION | URL

record message_entity =
  etype :: entity_type
  offset :: nat

record tg_message =
  msg_text :: "string option"
  entities :: "message_entity list"
  new_chat_members :: "string list"

record update =
  message :: "tg_message option"
  edited_message :: "tg_message option"
  channel_post :: "tg_message option"
  edited_channel_post :: "tg_message option"

definition effective_message :: "update \<Rightarrow> tg_message option" where
  "effective_message u =
     (case message u of
        Some m \<Rightarrow> Some m
      | None \<Rightarrow>
          (case edited_message u of
             Some m \<Rightarrow> Some m
           | None \<Rightarrow>
               (case channel_post u of
                  Some m \<Rightarrow> Some m
                | None \<Rightarrow> edited_channel_post u)))"

definition starts_with_command :: "tg_message \<Rightarrow> bool" where
  "starts_with_command m =
     (case entities m of
        [] \<Rightarrow> False
      | e # es \<Rightarrow> etype e = BOT_COMMAND \<and> offset e = 0)"

fun check_update :: "filter_expr \<Rightarrow> update \<Rightarrow> bool" where
  "check_update NEW_CHAT_MEMBERS u =
     (case effective_message u of None \<Rightarrow> False | Some m \<Rightarrow> new_chat_members m \<noteq> [])"
| "check_update TEXT u =
     (case effective_message u of None \<Rightarrow> False | Some m \<Rightarrow> truthy (msg_text m))"
| "check_update COMMAND u =
     (case effective_message u of None \<Rightarrow> False | Some m \<Rightarrow> starts_with_command m)"
| "check_update EDITED_MESSAGE u =
     (effective_message u \<noteq> None \<and> edited_message u \<noteq> None)"
| "check_update (And_filter f g) u =
     (effective_message u \<noteq> None \<and> check_update f u \<and> check_update g u)"
| "check_update (Not_filter f) u =
     (effective_message u \<noteq> None \<and> \<not> check_update f u)"

fun message_handler_matches :: "update \<Rightarrow> handler \<Rightarrow> bool" where
  "message_handler_matches u (MessageHandler f cb) = check_update f u"
| "message_handler_matches u (CommandHandler name cb) = False"

definition matching_message_handlers :: "update \<Rightarrow> handler list" where
  "matching_message_handlers u = filter (message_handler_matches u) registrations"

text \<open>
  Two properties of an update, in terms of what it carries. An edited plain-text update
  carries an edited message, and the text of its effective message is non-empty and does
  not start with a bot command. An update has the shape of the platform's service messages
  when a message that lists new chat members has no text and does not come as an edit:
  the platform announces new members in a message of its own, which nobody can edit.
\<close>

definition edited_plain_text :: "update \<Rightarrow> bool" where
  "edited_plain_text u =
     (edited_message u \<noteq> None
      \<and> (case effective_message u of
            None \<Rightarrow> False
          | Some m \<Rightarrow> truthy (msg_text m) \<and> \<not> starts_with_command m))"

definition service_message_shape :: "update \<Rightarrow> bool" where
  "service_message_shape u =
     (case effective_message u of
        None \<Rightarrow> True
      | Some m \<Rightarrow>
          new_chat_members m = [] \<or> (\<not> truthy (msg_text m) \<and> edited_message u = None))"

section \<open>Example executions\<close>

text \<open>
  Concrete configurations and worlds on which the theorems below are instantiated: a world
  in which every library call returns, one in which the port is taken, and one in which the
  registration of the last message handler is rejected; a bot before \<open>setup_bot\<close> and one
  that is fully set up; an edited plain-text message and an edited command; an environment
  in which \<open>RENDER\<close> is set to the empty string; and the values of the standard library's
  \<open>version_string()\<close> and \<open>date_time_string()\<close> at some moment.
\<close>

definition example_config :: config where
  "example_config = \<lparr>BOT_TOKEN = ''123456:ABC-DEF'', PORT = 10000, HEALTH_CHECK_ENABLED = True\<rparr>"

definition example_config_no_health :: config where
  "example_config_no_health =
     \<lparr>BOT_TOKEN = ''123456:ABC-DEF'', PORT = 10000, HEALTH_CHECK_ENABLED = False\<rparr>"

definition quiet_world :: world where
  "quiet_world tr c = None"

definition port_in_use :: world where
  "port_in_use tr c =
     (case c of
        HTTPServer a h \<Rightarrow> Some (Exn OSError ''[Errno 98] Address already in use'')
      | _ \<Rightarrow> None)"

definition rejected_registration :: world where
  "rejected_registration tr c =
     (if c = add_handler (MessageHandler EDITED_MESSAGE handle_edited_message)
      then Some (Exn TypeError ''handler is not an instance of BaseHandler'')
      else None)"

definition new_bot :: state where
  "new_bot = \<lparr>trace = [], self = \<lparr>application = None, health_server = None\<rparr>\<rparr>"

definition running_bot :: state where
  "running_bot =
     \<lparr>trace = [],
      self = \<lparr>application = Some \<lparr>token = ''123456:ABC-DEF'', handlers = registrations,
                                 error_handlers = [error_handler]\<rparr>,
              health_server = Some \<lparr>server_address = (''0.0.0.0'', 10000),
                                   RequestHandlerClass = HealthCheckHandler\<rparr>\<rparr>\<rparr>"

definition edited_text_update :: update where
  "edited_text_update =
     \<lparr>message = None,
      edited_message = Some \<lparr>msg_text = Some ''hello (edited)'', entities = [], new_chat_members = []\<rparr>,
      channel_post = None,
      edited_channel_post = None\<rparr>"

definition edited_command_update :: update where
  "edited_command_update =
     \<lparr>message = None,
      edited_message = Some \<lparr>msg_text = Some ''/start'',
                              entities = [\<lparr>etype = BOT_COMMAND, offset = 0\<rparr>],
                              new_chat_members = []\<rparr>,
      channel_post = None,
      edited_channel_post = None\<rparr>"

definition render_set_empty :: environ where
  "render_set_empty k = (if k = ''RENDER'' then Some [] else None)"


section \<open>What each method adds to the trace\<close>

lemma setup_failures_append:
  "setup_failures (a @ b) = setup_failures a @ setup_failures b"
  by (induction a) simp_all

lemma servers_created_append:
  "servers_created (a @ b) = servers_created a + servers_created b"
  by (simp add: servers_created_def)

lemma new_events_append: "new_events tr (tr @ new) = new"
  by (simp add: new_events_def)

lemma add_handlers_trace:
  "\<exists>new. fst (snd (add_handlers w hs tr a)) = tr @ new \<and> list_all is_setup_call new
     \<and> setup_failures new = (case fst (add_handlers w hs tr a) of Inl e \<Rightarrow> [e] | Inr u \<Rightarrow> [])"
proof (induction hs arbitrary: tr a)
  case Nil
  show ?case by simp
next
  case (Cons h hs)
  show ?case
  proof (cases "w tr (add_handler h)")
    case (Some e)
    then show ?thesis by (simp add: extcall_def)
  next
    case None
    let ?tr1 = "tr @ [Called (add_handler h) None]"
    from Cons.IH [of ?tr1 "a\<lparr>handlers := handlers a @ [h]\<rparr>"]
    obtain new where n: "fst (snd (add_handlers w hs ?tr1 (a\<lparr>handlers := handlers a @ [h]\<rparr>))) = ?tr1 @ new"
      "list_all is_setup_call new"
      "setup_failures new = (case fst (add_handlers w hs ?tr1 (a\<lparr>handlers := handlers a @ [h]\<rparr>)) of Inl e \<Rightarrow> [e] | Inr u \<Rightarrow> [])"
      by blast
    show ?thesis
      apply (rule exI [of _ "Called (add_handler h) None # new"])
      using None n by (simp add: extcall_def)
  qed
qed

lemma setup_bot_try_trace:
  "\<exists>new. trace (snd (setup_bot_try cfg w s)) = trace s @ new \<and> list_all setup_event new
     \<and> setup_failures new = (case fst (setup_bot_try cfg w s) of Inl e \<Rightarrow> [e] | Inr u \<Rightarrow> [])"
proof (cases "w (trace s) (Application_build (BOT_TOKEN cfg))")
  case (Some e)
  then show ?thesis
    by (simp add: setup_bot_try_def extcall_def Let_def setup_event_def)
next
  case None
  let ?tr1 = "trace s @ [Called (Application_build (BOT_TOKEN cfg)) None]"
  let ?a0 = "\<lparr>token = BOT_TOKEN cfg, handlers = [], error_handlers = []\<rparr>"
  obtain r tr2 a where ah: "add_handlers w registrations ?tr1 ?a0 = (r, tr2, a)"
    by (cases "add_handlers w registrations ?tr1 ?a0") auto
  from add_handlers_trace [of w registrations ?tr1 ?a0] ah
  obtain new where n: "tr2 = ?tr1 @ new" "list_all is_setup_call new"
    "setup_failures new = (case r of Inl e \<Rightarrow> [e] | Inr u \<Rightarrow> [])"
    by auto
  have se: "list_all setup_event new"
    using n(2) by (simp add: list_all_iff setup_event_def)
  show ?thesis
  proof (cases r)
    case (Inl e)
    show ?thesis
      apply (rule exI [of _ "Called (Application_build (BOT_TOKEN cfg)) None # new"])
      using None ah n se Inl
      by (simp add: setup_bot_try_def extcall_def Let_def setup_event_def)
  next
    case (Inr u)
    show ?thesis
    proof (cases "w tr2 (add_error_handler error_handler)")
      case (Some e)
      show ?thesis
        apply (rule exI [of _ "Called (Application_build (BOT_TOKEN cfg)) None # new
                 @ [Called (add_error_handler error_handler) (Some e)]"])
        using None ah n se Inr Some
        by (simp add: setup_bot_try_def extcall_def Let_def setup_event_def setup_failures_append)
    next
      case None2: None
      show ?thesis
        apply (rule exI [of _ "Called (Application_build (BOT_TOKEN cfg)) None # new
                 @ [Called (add_error_handler error_handler) None,
                    Logged INFO ''Bot handlers configured successfully'']"])
        using None ah n se Inr None2
        by (simp add: setup_bot_try_def extcall_def logger_def Let_def setup_event_def setup_failures_append)
    qed
  qed
qed

lemma setup_bot_trace:
  "\<exists>new. trace (snd (setup_bot cfg w s)) = trace s @ new \<and> list_all setup_event new
     \<and> setup_failures new = (case fst (setup_bot cfg w s) of Inl e \<Rightarrow> [e] | Inr u \<Rightarrow> [])"
proof -
  obtain r s' where t: "setup_bot_try cfg w s = (r, s')"
    by (cases "setup_bot_try cfg w s") auto
  from setup_bot_try_trace [of cfg w s] t
  obtain new where n: "trace s' = trace s @ new" "list_all setup_event new"
    "setup_failures new = (case r of Inl e \<Rightarrow> [e] | Inr u \<Rightarrow> [])"
    by auto
  show ?thesis
  proof (cases r)
    case (Inl e)
    show ?thesis
    proof (cases "is_Exception (class_of e)")
      case True
      show ?thesis
        apply (rule exI [of _ "new @ [Logged ERROR (''Failed to setup bot: '' @ str_of e)]"])
        using t n Inl True
        by (simp add: setup_bot_def logger_def setup_event_def setup_failures_append)
    next
      case False
      show ?thesis
        apply (rule exI [of _ new])
        using t n Inl False by (simp add: setup_bot_def)
    qed
  next
    case (Inr u)
    show ?thesis
      apply (rule exI [of _ new])
      using t n Inr by (simp add: setup_bot_def)
  qed
qed

lemmas health_unfold =
  setup_health_server_def setup_health_server_try_def extcall_def logger_def Let_def

lemma setup_event_simps [simp]:
  "setup_event ev \<Longrightarrow> \<not> is_run_polling ev"
  "setup_event ev \<Longrightarrow> \<not> is_HTTPServer ev"
  "setup_event ev \<Longrightarrow> \<not> is_Thread_start ev"
  "setup_event ev \<Longrightarrow> \<not> is_Thread_join ev"
  by (cases ev rule: is_setup_call.cases; simp add: setup_event_def)+

lemma health_event_simps:
  "health_event cfg ev \<Longrightarrow> \<not> is_run_polling ev"
  "health_event cfg ev \<Longrightarrow> \<not> is_setup_call ev"
  "health_event cfg ev \<Longrightarrow> \<not> is_Thread_join ev"
  by (cases "(cfg, ev)" rule: health_event.cases; simp)+

lemma polling_event_simps [simp]:
  "polling_event ev \<Longrightarrow> \<not> is_HTTPServer ev"
  "polling_event ev \<Longrightarrow> \<not> is_setup_call ev"
  "polling_event ev \<Longrightarrow> \<not> is_Thread_start ev"
  "polling_event ev \<Longrightarrow> \<not> is_Thread_join ev"
  by (cases ev rule: polling_event.cases; simp)+

lemma no_setup_failures:
  "list_all (\<lambda>ev. \<not> is_setup_call ev) evs \<Longrightarrow> setup_failures evs = []"
  by (induction evs) simp_all

lemma no_servers_created:
  "list_all (\<lambda>ev. \<not> is_HTTPServer ev) evs \<Longrightarrow> servers_created evs = 0"
  by (induction evs) (simp_all add: servers_created_def)

lemma list_all_not_ex: "list_all (\<lambda>ev. \<not> P ev) evs \<Longrightarrow> \<not> list_ex P evs"
  by (simp add: list_all_iff list_ex_iff)

text \<open>The fields of \<open>self\<close> after \<open>setup_bot\<close>.\<close>

lemma setup_bot_try_self:
  "health_server (self (snd (setup_bot_try cfg w s))) = health_server (self s)
   \<and> (fst (setup_bot_try cfg w s) = Inr () \<longrightarrow> application (self (snd (setup_bot_try cfg w s))) \<noteq> None)"
  by (simp add: setup_bot_try_def Let_def split: option.splits prod.splits sum.splits)

lemma setup_bot_self:
  "health_server (self (snd (setup_bot cfg w s))) = health_server (self s)
   \<and> (fst (setup_bot cfg w s) = Inr () \<longrightarrow> application (self (snd (setup_bot cfg w s))) \<noteq> None)"
  using setup_bot_try_self [of cfg w s]
  by (cases "setup_bot_try cfg w s") (auto simp: setup_bot_def split: sum.splits)

text \<open>The events and the fields of \<open>self\<close> after \<open>setup_health_server\<close>.\<close>

lemma setup_health_server_trace:
  "\<exists>new. trace (snd (setup_health_server cfg w s)) = trace s @ new \<and> list_all (health_event cfg) new
     \<and> servers_created new \<le> 1
     \<and> (health_server (self s) = None \<and> health_server (self (snd (setup_health_server cfg w s))) = None
          \<longrightarrow> servers_created new = 0)"
  by (simp add: health_unfold servers_created_def split: option.splits)

lemma setup_health_server_self:
  "application (self (snd (setup_health_server cfg w s))) = application (self s)
   \<and> (health_server (self s) \<noteq> None \<longrightarrow> health_server (self (snd (setup_health_server cfg w s))) \<noteq> None)"
  by (simp add: health_unfold split: option.splits)

lemma filter_none: "list_all (\<lambda>ev. \<not> P ev) evs \<Longrightarrow> filter P evs = []"
  by (induction evs) simp_all

lemma start_try_trace:
  "\<exists>new. trace (snd (start_try cfg w s)) = trace s @ new
     \<and> list_all (\<lambda>ev. health_event cfg ev \<or> polling_event ev) new
     \<and> servers_created new \<le> 1
     \<and> (\<not> HEALTH_CHECK_ENABLED cfg \<or> health_server (self s) \<noteq> None \<or> application (self s) = None
          \<longrightarrow> list_all polling_event new \<and> self (snd (start_try cfg w s)) = self s)
     \<and> length (filter is_run_polling new) \<le> 1
     \<and> (fst (start_try cfg w s) = Inr () \<longrightarrow> length (filter is_run_polling new) = 1)"
proof (cases "application (self s) = None")
  case True
  show ?thesis
    by (rule exI [of _ "[]"]) (simp add: start_try_def True servers_created_def)
next
  case False
  then have app: "(application (self s) = None) = False" by simp
  let ?logs = "\<lambda>tr. logger INFO (''Port configured: '' @ str_int (PORT cfg))
      (logger INFO (''Health check enabled: '' @ str_bool (HEALTH_CHECK_ENABLED cfg))
        (logger INFO ''Starting Joker's Telegram Bot...'' tr))"
  show ?thesis
  proof (cases "HEALTH_CHECK_ENABLED cfg \<and> health_server (self s) = None")
    case True
    obtain r1 s1 where h: "setup_health_server cfg w s = (r1, s1)"
      by (cases "setup_health_server cfg w s") auto
    from setup_health_server_trace [of cfg w s] h
    obtain new1 where n: "trace s1 = trace s @ new1" "list_all (health_event cfg) new1"
      "servers_created new1 \<le> 1"
      by auto
    have np: "filter is_run_polling new1 = []"
      by (rule filter_none) (use n(2) in \<open>auto simp: list_all_iff dest: health_event_simps\<close>)
    have hp: "list_all (\<lambda>ev. health_event cfg ev \<or> polling_event ev) new1"
      using n(2) by (simp add: list_all_iff)
    show ?thesis
    proof (cases r1)
      case (Inl e)
      show ?thesis
        apply (rule exI [of _ new1])
        using True h n np hp Inl by (simp add: app start_try_def)
    next
      case (Inr u)
      show ?thesis
        apply (rule exI [of _ "new1 @ drop (length (trace s1))
                 (extcall w (run_polling polling_args) (?logs (trace s1)))"])
        using True h n np hp Inr
        by (simp add: app start_try_def Let_def logger_def extcall_def servers_created_append
            servers_created_def split: option.splits)
    qed
  next
    case False
    show ?thesis
      apply (rule exI [of _ "drop (length (trace s))
                 (extcall w (run_polling polling_args) (?logs (trace s)))"])
      using False
      by (auto simp: app start_try_def Let_def logger_def extcall_def servers_created_def
          split: option.splits)
  qed
qed

lemma start_trace:
  "\<exists>new. trace (snd (start cfg w s)) = trace s @ new
     \<and> list_all (\<lambda>ev. health_event cfg ev \<or> polling_event ev) new
     \<and> servers_created new \<le> 1
     \<and> (\<not> HEALTH_CHECK_ENABLED cfg \<or> health_server (self s) \<noteq> None \<or> application (self s) = None
          \<longrightarrow> list_all polling_event new \<and> self (snd (start cfg w s)) = self s)
     \<and> length (filter is_run_polling new) \<le> 1
     \<and> (fst (start cfg w s) = Inr () \<longrightarrow> length (filter is_run_polling new) = 1)"
proof -
  obtain r s' where t: "start_try cfg w s = (r, s')"
    by (cases "start_try cfg w s") auto
  from start_try_trace [of cfg w s]
  obtain new where n0: "trace (snd (start_try cfg w s)) = trace s @ new
     \<and> list_all (\<lambda>ev. health_event cfg ev \<or> polling_event ev) new
     \<and> servers_created new \<le> 1
     \<and> (\<not> HEALTH_CHECK_ENABLED cfg \<or> health_server (self s) \<noteq> None \<or> application (self s) = None
          \<longrightarrow> list_all polling_event new \<and> self (snd (start_try cfg w s)) = self s)
     \<and> length (filter is_run_polling new) \<le> 1
     \<and> (fst (start_try cfg w s) = Inr () \<longrightarrow> length (filter is_run_polling new) = 1)"
    ..
  have n: "trace s' = trace s @ new
     \<and> list_all (\<lambda>ev. health_event cfg ev \<or> polling_event ev) new
     \<and> servers_created new \<le> 1
     \<and> (\<not> HEALTH_CHECK_ENABLED cfg \<or> health_server (self s) \<noteq> None \<or> application (self s) = None
          \<longrightarrow> list_all polling_event new \<and> self s' = self s)
     \<and> length (filter is_run_polling new) \<le> 1
     \<and> (r = Inr () \<longrightarrow> length (filter is_run_polling new) = 1)"
    using n0 unfolding t by simp
  show ?thesis
  proof (cases "\<exists>e. r = Inl e \<and> is_Exception (class_of e)")
    case True
    then obtain e where e: "r = Inl e" "is_Exception (class_of e)" by blast
    show ?thesis
      apply (rule exI [of _ "new @ [Logged ERROR (''Error starting bot: '' @ str_of e)]"])
      using t n e
      by (simp add: start_def logger_def servers_created_append servers_created_def)
  next
    case False
    show ?thesis
      apply (rule exI [of _ new])
      using t n False by (cases r) (auto simp: start_def)
  qed
qed

lemma setup_no_servers: "list_all setup_event evs \<Longrightarrow> servers_created evs = 0"
  by (rule no_servers_created) (simp add: list_all_iff)

lemma health_no_failures: "list_all (health_event cfg) evs \<Longrightarrow> setup_failures evs = []"
  by (rule no_setup_failures) (auto simp: list_all_iff dest: health_event_simps)

lemma start_no_failures:
  "list_all (\<lambda>ev. health_event cfg ev \<or> polling_event ev) evs \<Longrightarrow> setup_failures evs = []"
  by (rule no_setup_failures) (auto simp: list_all_iff dest: health_event_simps)

lemma polling_no_servers: "list_all polling_event evs \<Longrightarrow> servers_created evs = 0"
  by (rule no_servers_created) (simp add: list_all_iff)

lemma init_trace:
  "\<exists>new. snd (init cfg w tr) = tr @ new
     \<and> list_all (\<lambda>ev. setup_event ev \<or> health_event cfg ev) new
     \<and> setup_failures new =
         (case fst (setup_bot cfg w \<lparr>trace = tr, self = \<lparr>application = None, health_server = None\<rparr>\<rparr>) of
            Inl e \<Rightarrow> [e] | Inr u \<Rightarrow> [])
     \<and> (\<forall>e. fst (setup_bot cfg w \<lparr>trace = tr, self = \<lparr>application = None, health_server = None\<rparr>\<rparr>) = Inl e
           \<longrightarrow> fst (init cfg w tr) = Inl e \<and> list_all setup_event new)
     \<and> servers_created new \<le> 1
     \<and> (\<forall>b. fst (init cfg w tr) = Inr b
           \<longrightarrow> application b \<noteq> None \<and> (health_server b = None \<longrightarrow> servers_created new = 0))
     \<and> (\<not> HEALTH_CHECK_ENABLED cfg
           \<longrightarrow> list_all setup_event new \<and> (\<forall>b. fst (init cfg w tr) = Inr b \<longrightarrow> health_server b = None))"
proof -
  let ?s0 = "\<lparr>trace = tr, self = \<lparr>application = None, health_server = None\<rparr>\<rparr>"
  obtain r1 s1 where sb: "setup_bot cfg w ?s0 = (r1, s1)"
    by (cases "setup_bot cfg w ?s0") auto
  from setup_bot_trace [of cfg w ?s0] sb
  obtain new1 where n1: "trace s1 = tr @ new1" "list_all setup_event new1"
    "setup_failures new1 = (case r1 of Inl e \<Rightarrow> [e] | Inr u \<Rightarrow> [])"
    by auto
  from setup_bot_self [of cfg w ?s0] sb
  have f1: "health_server (self s1) = None" "r1 = Inr () \<longrightarrow> application (self s1) \<noteq> None"
    by simp_all
  have w1: "list_all (\<lambda>ev. setup_event ev \<or> health_event cfg ev) new1"
    using n1(2) by (simp add: list_all_iff)
  note z1 = setup_no_servers [OF n1(2)]
  show ?thesis
  proof (cases r1)
    case (Inl e)
    show ?thesis
      apply (rule exI [of _ new1])
      using sb n1 w1 z1 Inl by (simp add: init_def)
  next
    case (Inr u)
    show ?thesis
    proof (cases "HEALTH_CHECK_ENABLED cfg")
      case False
      show ?thesis
        apply (rule exI [of _ new1])
        using sb n1 w1 z1 f1 Inr False by (simp add: init_def)
    next
      case True
      obtain r2 s2 where sh: "setup_health_server cfg w s1 = (r2, s2)"
        by (cases "setup_health_server cfg w s1") auto
      from setup_health_server_trace [of cfg w s1] sh f1(1)
      obtain new2 where n2: "trace s2 = trace s1 @ new2" "list_all (health_event cfg) new2"
        "servers_created new2 \<le> 1" "health_server (self s2) = None \<longrightarrow> servers_created new2 = 0"
        by auto
      from setup_health_server_self [of cfg w s1] sh
      have f2: "application (self s2) = application (self s1)" by simp
      have w2: "list_all (\<lambda>ev. setup_event ev \<or> health_event cfg ev) new2"
        using n2(2) by (simp add: list_all_iff)
      note z2 = health_no_failures [OF n2(2)]
      show ?thesis
        apply (rule exI [of _ "new1 @ new2"])
        using sb n1 w1 z1 f1 Inr True sh n2 f2 w2 z2
        by (cases r2) (simp_all add: init_def setup_failures_append servers_created_append)
    qed
  qed
qed

lemma main_trace:
  "list_all (\<lambda>ev. setup_event ev \<or> health_event cfg ev \<or> polling_event ev) (snd (main cfg w))
   \<and> setup_failures (snd (main cfg w)) =
       (case fst (setup_bot cfg w \<lparr>trace = [], self = \<lparr>application = None, health_server = None\<rparr>\<rparr>) of
          Inl e \<Rightarrow> [e] | Inr u \<Rightarrow> [])
   \<and> (\<forall>e. fst (setup_bot cfg w \<lparr>trace = [], self = \<lparr>application = None, health_server = None\<rparr>\<rparr>) = Inl e
         \<longrightarrow> fst (init cfg w []) = Inl e \<and> fst (main cfg w) = Inl e
             \<and> list_all setup_event (snd (main cfg w)))
   \<and> servers_created (snd (main cfg w)) \<le> 1"
proof -
  let ?s0 = "\<lparr>trace = [], self = \<lparr>application = None, health_server = None\<rparr>\<rparr>"
  from init_trace [of cfg w "[]"]
  obtain new where n0: "snd (init cfg w []) = [] @ new
     \<and> list_all (\<lambda>ev. setup_event ev \<or> health_event cfg ev) new
     \<and> setup_failures new = (case fst (setup_bot cfg w ?s0) of Inl e \<Rightarrow> [e] | Inr u \<Rightarrow> [])
     \<and> (\<forall>e. fst (setup_bot cfg w ?s0) = Inl e
           \<longrightarrow> fst (init cfg w []) = Inl e \<and> list_all setup_event new)
     \<and> servers_created new \<le> 1
     \<and> (\<forall>b. fst (init cfg w []) = Inr b
           \<longrightarrow> application b \<noteq> None \<and> (health_server b = None \<longrightarrow> servers_created new = 0))
     \<and> (\<not> HEALTH_CHECK_ENABLED cfg
           \<longrightarrow> list_all setup_event new \<and> (\<forall>b. fst (init cfg w []) = Inr b \<longrightarrow> health_server b = None))"
    ..
  obtain ri where i: "init cfg w [] = (ri, new)"
    using n0 by (cases "init cfg w []") auto
  have w0: "list_all (\<lambda>ev. setup_event ev \<or> health_event cfg ev \<or> polling_event ev) new"
    using n0 by (auto simp: list_all_iff)
  show ?thesis
  proof (cases ri)
    case (Inl e)
    have "\<forall>e'. fst (setup_bot cfg w ?s0) = Inl e' \<longrightarrow> e' = e"
      using n0 i Inl by auto
    then show ?thesis
      using n0 i Inl w0 by (auto simp: main_def)
  next
    case (Inr b)
    have nl: "\<forall>e. fst (setup_bot cfg w ?s0) \<noteq> Inl e"
      using n0 i Inr by auto
    let ?s = "\<lparr>trace = new, self = b\<rparr>"
    obtain r s' where st: "start cfg w ?s = (r, s')"
      by (cases "start cfg w ?s") auto
    from start_trace [of cfg w ?s]
    obtain new2 where m0: "trace (snd (start cfg w ?s)) = trace ?s @ new2
     \<and> list_all (\<lambda>ev. health_event cfg ev \<or> polling_event ev) new2
     \<and> servers_created new2 \<le> 1
     \<and> (\<not> HEALTH_CHECK_ENABLED cfg \<or> health_server (self ?s) \<noteq> None \<or> application (self ?s) = None
          \<longrightarrow> list_all polling_event new2 \<and> self (snd (start cfg w ?s)) = self ?s)
     \<and> length (filter is_run_polling new2) \<le> 1
     \<and> (fst (start cfg w ?s) = Inr () \<longrightarrow> length (filter is_run_polling new2) = 1)"
      ..
    have tr: "snd (main cfg w) = new @ new2"
      using i Inr st m0 by (simp add: main_def)
    have w2: "list_all (\<lambda>ev. setup_event ev \<or> health_event cfg ev \<or> polling_event ev) new2"
      using m0 by (auto simp: list_all_iff)
    have m1: "list_all (\<lambda>ev. health_event cfg ev \<or> polling_event ev) new2"
      using m0 by blast
    have z2: "setup_failures new2 = []"
      using m1 by (rule start_no_failures)
    have sc: "servers_created new + servers_created new2 \<le> 1"
    proof (cases "health_server b = None")
      case True
      then have "servers_created new = 0" using n0 i Inr by simp
      then show ?thesis using m0 by simp
    next
      case False
      then have "list_all polling_event new2" using m0 by simp
      then have "servers_created new2 = 0" by (rule polling_no_servers)
      then show ?thesis using n0 by simp
    qed
    show ?thesis
      using tr w0 w2 z2 sc n0 nl
      by (simp add: setup_failures_append servers_created_append)
  qed
qed

lemmas run_unfold =
  main_def init_def setup_bot_def setup_bot_try_def registrations_def start_def start_try_def
  setup_health_server_def setup_health_server_try_def extcall_def logger_def Let_def

lemma main_rejected_registration:
  "main example_config rejected_registration =
     (Inl (Exn TypeError ''handler is not an instance of BaseHandler''),
      [Called (Application_build ''123456:ABC-DEF'') None,
       Called (add_handler (CommandHandler ''start'' start_command)) None,
       Called (add_handler (CommandHandler ''help'' help_command)) None,
       Called (add_handler (CommandHandler ''about'' about_command)) None,
       Called (add_handler (CommandHandler ''dev'' dev_command)) None,
       Called (add_handler (CommandHandler ''stats'' stats_command)) None,
       Called (add_handler (CommandHandler ''deploy'' deploy_command)) None,
       Called (add_handler (MessageHandler NEW_CHAT_MEMBERS handle_new_chat_members)) None,
       Called (add_handler (MessageHandler (And_filter TEXT (Not_filter COMMAND)) handle_message)) None,
       Called (add_handler (MessageHandler EDITED_MESSAGE handle_edited_message))
         (Some (Exn TypeError ''handler is not an instance of BaseHandler'')),
       Logged ERROR ''Failed to setup bot: handler is not an instance of BaseHandler''])"
  by (simp add: run_unfold example_config_def rejected_registration_def)

lemma main_port_in_use:
  "main example_config port_in_use =
     (Inr (),
      [Called (Application_build ''123456:ABC-DEF'') None,
       Called (add_handler (CommandHandler ''start'' start_command)) None,
       Called (add_handler (CommandHandler ''help'' help_command)) None,
       Called (add_handler (CommandHandler ''about'' about_command)) None,
       Called (add_handler (CommandHandler ''dev'' dev_command)) None,
       Called (add_handler (CommandHandler ''stats'' stats_command)) None,
       Called (add_handler (CommandHandler ''deploy'' deploy_command)) None,
       Called (add_handler (MessageHandler NEW_CHAT_MEMBERS handle_new_chat_members)) None,
       Called (add_handler (MessageHandler (And_filter TEXT (Not_filter COMMAND)) handle_message)) None,
       Called (add_handler (MessageHandler EDITED_MESSAGE handle_edited_message)) None,
       Called (add_error_handler error_handler) None,
       Logged INFO ''Bot handlers configured successfully'',
       Called (HTTPServer (''0.0.0.0'', 10000) HealthCheckHandler)
         (Some (Exn OSError ''[Errno 98] Address already in use'')),
       Logged WARNING ''Could not start health server: [Errno 98] Address already in use'',
       Called (HTTPServer (''0.0.0.0'', 10000) HealthCheckHandler)
         (Some (Exn OSError ''[Errno 98] Address already in use'')),
       Logged WARNING ''Could not start health server: [Errno 98] Address already in use'',
       Logged INFO ''Starting Joker's Telegram Bot...'',
       Logged INFO (''Health check enabled: '' @ str_bool True),
       Logged INFO (''Port configured: '' @ str_int 10000),
       Called (run_polling polling_args) None])"
  by (simp add: run_unfold example_config_def port_in_use_def)

lemma main_quiet_world:
  "main example_config quiet_world =
     (Inr (),
      [Called (Application_build ''123456:ABC-DEF'') None,
       Called (add_handler (CommandHandler ''start'' start_command)) None,
       Called (add_handler (CommandHandler ''help'' help_command)) None,
       Called (add_handler (CommandHandler ''about'' about_command)) None,
       Called (add_handler (CommandHandler ''dev'' dev_command)) None,
       Called (add_handler (CommandHandler ''stats'' stats_command)) None,
       Called (add_handler (CommandHandler ''deploy'' deploy_command)) None,
       Called (add_handler (MessageHandler NEW_CHAT_MEMBERS handle_new_chat_members)) None,
       Called (add_handler (MessageHandler (And_filter TEXT (Not_filter COMMAND)) handle_message)) None,
       Called (add_handler (MessageHandler EDITED_MESSAGE handle_edited_message)) None,
       Called (add_error_handler error_handler) None,
       Logged INFO ''Bot handlers configured successfully'',
       Called (HTTPServer (''0.0.0.0'', 10000) HealthCheckHandler) None,
       Called (Thread_start (serve_forever \<lparr>server_address = (''0.0.0.0'', 10000),
                 RequestHandlerClass = HealthCheckHandler\<rparr>) True) None,
       Logged INFO (''Health check server started on port '' @ str_int 10000),
       Logged INFO ''Starting Joker's Telegram Bot...'',
       Logged INFO (''Health check enabled: '' @ str_bool True),
       Logged INFO (''Port configured: '' @ str_int 10000),
       Called (run_polling polling_args) None])"
  by (simp add: run_unfold example_config_def quiet_world_def)


lemma setup_health_server_bind_fails:
  "w (trace s) (HTTPServer (''0.0.0.0'', PORT cfg) HealthCheckHandler) = Some e
   \<Longrightarrow> is_Exception (class_of e)
   \<Longrightarrow> setup_health_server cfg w s =
        (Inr (),
         s\<lparr>trace := trace s @
              [Called (HTTPServer (''0.0.0.0'', PORT cfg) HealthCheckHandler) (Some e),
               Logged WARNING (''Could not start health server: '' @ str_of e)]\<rparr>)"
  by (simp add: health_unfold)

lemma start_polls:
  assumes "application (self s) \<noteq> None"
    and "HEALTH_CHECK_ENABLED cfg \<and> health_server (self s) = None
           \<longrightarrow> fst (setup_health_server cfg w s) = Inr ()"
  shows "\<exists>r. Called (run_polling polling_args) r
               \<in> set (new_events (trace s) (trace (snd (start cfg w s))))
             \<and> fst (start cfg w s) = (case r of None \<Rightarrow> Inr () | Some e' \<Rightarrow> Inl e')"
proof -
  from assms(1) have app: "(application (self s) = None) = False" by simp
  show ?thesis
  proof (cases "HEALTH_CHECK_ENABLED cfg \<and> health_server (self s) = None")
    case True
    obtain s1 where h: "setup_health_server cfg w s = (Inr (), s1)"
      using assms(2) True by (cases "setup_health_server cfg w s") auto
    from setup_health_server_trace [of cfg w s] h
    obtain new1 where n: "trace s1 = trace s @ new1" by auto
    show ?thesis
      using True h n
      by (auto simp: app start_def start_try_def Let_def logger_def extcall_def new_events_def
          split: option.splits)
  next
    case False
    then show ?thesis
      by (auto simp: app start_def start_try_def Let_def logger_def extcall_def new_events_def
          split: option.splits)
  qed
qed

lemma start_running_bot:
  "start example_config quiet_world running_bot =
     (Inr (),
      running_bot\<lparr>trace :=
        [Logged INFO ''Starting Joker's Telegram Bot...'',
         Logged INFO (''Health check enabled: '' @ str_bool True),
         Logged INFO (''Port configured: '' @ str_int 10000),
         Called (run_polling polling_args) None]\<rparr>)"
  by (simp add: run_unfold example_config_def quiet_world_def running_bot_def)

lemma init_no_health:
  "init example_config_no_health quiet_world [] =
     (Inr \<lparr>application = Some \<lparr>token = ''123456:ABC-DEF'', handlers = registrations,
                                error_handlers = [error_handler]\<rparr>,
           health_server = None\<rparr>,
      [Called (Application_build ''123456:ABC-DEF'') None,
       Called (add_handler (CommandHandler ''start'' start_command)) None,
       Called (add_handler (CommandHandler ''help'' help_command)) None,
       Called (add_handler (CommandHandler ''about'' about_command)) None,
       Called (add_handler (CommandHandler ''dev'' dev_command)) None,
       Called (add_handler (CommandHandler ''stats'' stats_command)) None,
       Called (add_handler (CommandHandler ''deploy'' deploy_command)) None,
       Called (add_handler (MessageHandler NEW_CHAT_MEMBERS handle_new_chat_members)) None,
       Called (add_handler (MessageHandler (And_filter TEXT (Not_filter COMMAND)) handle_message)) None,
       Called (add_handler (MessageHandler EDITED_MESSAGE handle_edited_message)) None,
       Called (add_error_handler error_handler) None,
       Logged INFO ''Bot handlers configured successfully''])"
  by (simp add: run_unfold example_config_no_health_def quiet_world_def)

lemma setup_health_server_quiet:
  "setup_health_server example_config quiet_world new_bot =
     (Inr (),
      \<lparr>trace =
         [Called (HTTPServer (''0.0.0.0'', 10000) HealthCheckHandler) None,
          Called (Thread_start (serve_forever \<lparr>server_address = (''0.0.0.0'', 10000),
                   RequestHandlerClass = HealthCheckHandler\<rparr>) True) None,
          Logged INFO (''Health check server started on port '' @ str_int 10000)],
       self = \<lparr>application = None,
               health_server = Some \<lparr>server_address = (''0.0.0.0'', 10000),
                                    RequestHandlerClass = HealthCheckHandler\<rparr>\<rparr>\<rparr>)"
  by (simp add: run_unfold example_config_def quiet_world_def new_bot_def)

lemma start_new_events:
  "trace (snd (start cfg w s)) = trace s @ new_events (trace s) (trace (snd (start cfg w s)))
   \<and> list_all (\<lambda>ev. health_event cfg ev \<or> polling_event ev)
        (new_events (trace s) (trace (snd (start cfg w s))))
   \<and> (\<not> HEALTH_CHECK_ENABLED cfg \<or> health_server (self s) \<noteq> None \<or> application (self s) = None
        \<longrightarrow> list_all polling_event (new_events (trace s) (trace (snd (start cfg w s))))
            \<and> self (snd (start cfg w s)) = self s)
   \<and> length (filter is_run_polling (new_events (trace s) (trace (snd (start cfg w s))))) \<le> 1
   \<and> (fst (start cfg w s) = Inr ()
        \<longrightarrow> length (filter is_run_polling (new_events (trace s) (trace (snd (start cfg w s))))) = 1)"
proof -
  from start_trace [of cfg w s]
  obtain new where n: "trace (snd (start cfg w s)) = trace s @ new
     \<and> list_all (\<lambda>ev. health_event cfg ev \<or> polling_event ev) new
     \<and> servers_created new \<le> 1
     \<and> (\<not> HEALTH_CHECK_ENABLED cfg \<or> health_server (self s) \<noteq> None \<or> application (self s) = None
          \<longrightarrow> list_all polling_event new \<and> self (snd (start cfg w s)) = self s)
     \<and> length (filter is_run_polling new) \<le> 1
     \<and> (fst (start cfg w s) = Inr () \<longrightarrow> length (filter is_run_polling new) = 1)"
    ..
  then have "new_events (trace s) (trace (snd (start cfg w s))) = new"
    by (simp add: new_events_append)
  with n show ?thesis by simp
qed

lemma init_new_events:
  "list_all (\<lambda>ev. setup_event ev \<or> health_event cfg ev) (new_events tr (snd (init cfg w tr)))
   \<and> (\<not> HEALTH_CHECK_ENABLED cfg
        \<longrightarrow> list_all setup_event (new_events tr (snd (init cfg w tr)))
            \<and> (\<forall>b. fst (init cfg w tr) = Inr b \<longrightarrow> health_server b = None))"
proof -
  from init_trace [of cfg w tr]
  obtain new where n: "snd (init cfg w tr) = tr @ new
     \<and> list_all (\<lambda>ev. setup_event ev \<or> health_event cfg ev) new
     \<and> setup_failures new =
         (case fst (setup_bot cfg w \<lparr>trace = tr, self = \<lparr>application = None, health_server = None\<rparr>\<rparr>) of
            Inl e \<Rightarrow> [e] | Inr u \<Rightarrow> [])
     \<and> (\<forall>e. fst (setup_bot cfg w \<lparr>trace = tr, self = \<lparr>application = None, health_server = None\<rparr>\<rparr>) = Inl e
           \<longrightarrow> fst (init cfg w tr) = Inl e \<and> list_all setup_event new)
     \<and> servers_created new \<le> 1
     \<and> (\<forall>b. fst (init cfg w tr) = Inr b
           \<longrightarrow> application b \<noteq> None \<and> (health_server b = None \<longrightarrow> servers_created new = 0))
     \<and> (\<not> HEALTH_CHECK_ENABLED cfg
           \<longrightarrow> list_all setup_event new \<and> (\<forall>b. fst (init cfg w tr) = Inr b \<longrightarrow> health_server b = None))"
    ..
  then have "new_events tr (snd (init cfg w tr)) = new"
    by (simp add: new_events_append)
  with n show ?thesis by simp
qed

lemma event_not_join:
  "setup_event ev \<or> health_event cfg ev \<or> polling_event ev \<Longrightarrow> \<not> is_Thread_join ev"
  by (auto dest: health_event_simps)

lemma trace_running_bot: "trace running_bot = []"
  by (simp add: running_bot_def)

lemma trace_new_bot: "trace new_bot = []"
  by (simp add: new_bot_def)






section \<open>What the health responder sends\<close>




section \<open>A failed setup never reaches the poll loop\<close>

text \<open>
  Claim C2. If building the application or any registration step raises, \<open>setup_bot\<close>
  raises that same exception; then the constructor raises it too, no bot object exists, the
  entry point receives the exception, and \<open>run_polling\<close> is never called.
  A setup step has failed with \<open>e\<close> when \<open>e\<close> is among the exceptions that the setup calls
  of the execution raised.
\<close>

theorem setup_failure_aborts_startup:
  "(e \<in> set (setup_failures (new_events (trace s) (trace (snd (setup_bot cfg w s)))))
      \<longrightarrow> fst (setup_bot cfg w s) = Inl e)
   \<and> (e \<in> set (setup_failures (snd (main cfg w)))
      \<longrightarrow> fst (init cfg w []) = Inl e \<and> fst (main cfg w) = Inl e
          \<and> \<not> list_ex is_run_polling (snd (main cfg w)))"
proof (intro conjI impI)
  assume a: "e \<in> set (setup_failures (new_events (trace s) (trace (snd (setup_bot cfg w s)))))"
  from setup_bot_trace [of cfg w s]
  obtain new where n: "trace (snd (setup_bot cfg w s)) = trace s @ new"
    "setup_failures new = (case fst (setup_bot cfg w s) of Inl e \<Rightarrow> [e] | Inr u \<Rightarrow> [])"
    by blast
  from a n show "fst (setup_bot cfg w s) = Inl e"
    by (cases "fst (setup_bot cfg w s)") (simp_all add: new_events_append)
next
  let ?s0 = "\<lparr>trace = [], self = \<lparr>application = None, health_server = None\<rparr>\<rparr>"
  assume a: "e \<in> set (setup_failures (snd (main cfg w)))"
  note m = main_trace [of cfg w]
  from a m have r: "fst (setup_bot cfg w ?s0) = Inl e"
    by (cases "fst (setup_bot cfg w ?s0)") simp_all
  with m have f: "fst (init cfg w []) = Inl e" "fst (main cfg w) = Inl e"
    "list_all setup_event (snd (main cfg w))"
    by blast+
  from f(3) have "\<not> list_ex is_run_polling (snd (main cfg w))"
    by (intro list_all_not_ex) (simp add: list_all_iff)
  with f show "fst (init cfg w []) = Inl e" "fst (main cfg w) = Inl e"
    "\<not> list_ex is_run_polling (snd (main cfg w))"
    by simp_all
qed

theorem setup_failure_aborts_startup_witness:
  "Exn TypeError ''handler is not an instance of BaseHandler''
     \<in> set (setup_failures (new_events (trace new_bot)
              (trace (snd (setup_bot example_config rejected_registration new_bot)))))
   \<and> Exn TypeError ''handler is not an instance of BaseHandler''
     \<in> set (setup_failures (snd (main example_config rejected_registration)))
   \<and> fst (setup_bot example_config rejected_registration new_bot)
       = Inl (Exn TypeError ''handler is not an instance of BaseHandler'')
   \<and> fst (init example_config rejected_registration [])
       = Inl (Exn TypeError ''handler is not an instance of BaseHandler'')
   \<and> fst (main example_config rejected_registration)
       = Inl (Exn TypeError ''handler is not an instance of BaseHandler'')
   \<and> \<not> list_ex is_run_polling (snd (main example_config rejected_registration))"
proof -
  have h1: "Exn TypeError ''handler is not an instance of BaseHandler''
     \<in> set (setup_failures (new_events (trace new_bot)
              (trace (snd (setup_bot example_config rejected_registration new_bot)))))"
    by (simp add: run_unfold example_config_def rejected_registration_def new_bot_def
        new_events_def)
  have h2: "Exn TypeError ''handler is not an instance of BaseHandler''
     \<in> set (setup_failures (snd (main example_config rejected_registration)))"
    by (simp add: main_rejected_registration)
  show ?thesis
    using h1 h2
      setup_failure_aborts_startup [of "Exn TypeError ''handler is not an instance of BaseHandler''"
        new_bot example_config rejected_registration]
    by blast
qed

section \<open>A port that cannot be bound does not stop the bot\<close>

text \<open>
  Claim C3. When binding the health server's socket fails with an exception of class
  \<open>Exception\<close> (an \<open>OSError\<close> for a port in use), \<open>setup_health_server\<close> catches it,
  logs a warning and returns normally, leaving the bot without a health server. If no setup
  step failed, construction then returns a bot, and \<open>start()\<close> calls \<open>run_polling\<close>; what
  \<open>start()\<close> returns or raises is what \<open>run_polling\<close> returns or raises.
\<close>

theorem health_bind_failure_not_fatal:
  assumes bind: "\<And>tr. w tr (HTTPServer (''0.0.0.0'', PORT cfg) HealthCheckHandler) = Some e"
    and exc: "is_Exception (class_of e)"
  shows "setup_health_server cfg w s =
           (Inr (),
            s\<lparr>trace := trace s @
                 [Called (HTTPServer (''0.0.0.0'', PORT cfg) HealthCheckHandler) (Some e),
                  Logged WARNING (''Could not start health server: '' @ str_of e)]\<rparr>)
         \<and> (setup_failures (snd (main cfg w)) = []
              \<longrightarrow> (\<exists>b. fst (init cfg w []) = Inr b \<and> health_server b = None)
                  \<and> (\<exists>r. Called (run_polling polling_args) r \<in> set (snd (main cfg w))
                        \<and> fst (main cfg w) = (case r of None \<Rightarrow> Inr () | Some e' \<Rightarrow> Inl e')))"
proof (intro conjI impI)
  show "setup_health_server cfg w s =
           (Inr (),
            s\<lparr>trace := trace s @
                 [Called (HTTPServer (''0.0.0.0'', PORT cfg) HealthCheckHandler) (Some e),
                  Logged WARNING (''Could not start health server: '' @ str_of e)]\<rparr>)"
    using bind exc by (simp add: setup_health_server_bind_fails)
next
  let ?s0 = "\<lparr>trace = [], self = \<lparr>application = None, health_server = None\<rparr>\<rparr>"
  assume ok: "setup_failures (snd (main cfg w)) = []"
  obtain r1 s1 where sb: "setup_bot cfg w ?s0 = (r1, s1)"
    by (cases "setup_bot cfg w ?s0") auto
  from ok main_trace [of cfg w] sb have r1: "r1 = Inr ()"
    by (cases r1) simp_all
  from setup_bot_self [of cfg w ?s0] sb r1
  have f1: "health_server (self s1) = None" "application (self s1) \<noteq> None"
    by simp_all
  have hs: "\<And>s'. setup_health_server cfg w s' =
           (Inr (),
            s'\<lparr>trace := trace s' @
                 [Called (HTTPServer (''0.0.0.0'', PORT cfg) HealthCheckHandler) (Some e),
                  Logged WARNING (''Could not start health server: '' @ str_of e)]\<rparr>)"
    using bind exc by (simp add: setup_health_server_bind_fails)
  obtain tr where i: "init cfg w [] = (Inr (self s1), tr)"
    using sb r1 hs by (cases "HEALTH_CHECK_ENABLED cfg") (simp_all add: init_def)
  show "\<exists>b. fst (init cfg w []) = Inr b \<and> health_server b = None"
    using i f1 by simp
  let ?s = "\<lparr>trace = tr, self = self s1\<rparr>"
  have "\<exists>r. Called (run_polling polling_args) r
               \<in> set (new_events (trace ?s) (trace (snd (start cfg w ?s))))
             \<and> fst (start cfg w ?s) = (case r of None \<Rightarrow> Inr () | Some e' \<Rightarrow> Inl e')"
    by (rule start_polls) (use f1 hs in simp_all)
  then obtain r where r: "Called (run_polling polling_args) r
               \<in> set (new_events (trace ?s) (trace (snd (start cfg w ?s))))"
      "fst (start cfg w ?s) = (case r of None \<Rightarrow> Inr () | Some e' \<Rightarrow> Inl e')"
    by blast
  from r(1) have "Called (run_polling polling_args) r \<in> set (trace (snd (start cfg w ?s)))"
    by (auto simp: new_events_def dest: in_set_dropD)
  with r(2) i
  show "\<exists>r. Called (run_polling polling_args) r \<in> set (snd (main cfg w))
          \<and> fst (main cfg w) = (case r of None \<Rightarrow> Inr () | Some e' \<Rightarrow> Inl e')"
    by (cases "start cfg w ?s") (auto simp: main_def)
qed

theorem health_bind_failure_not_fatal_witness:
  "(\<forall>tr. port_in_use tr (HTTPServer (''0.0.0.0'', PORT example_config) HealthCheckHandler)
           = Some (Exn OSError ''[Errno 98] Address already in use''))
   \<and> is_Exception (class_of (Exn OSError ''[Errno 98] Address already in use''))
   \<and> setup_failures (snd (main example_config port_in_use)) = []
   \<and> fst (setup_health_server example_config port_in_use new_bot) = Inr ()
   \<and> (\<exists>b. fst (init example_config port_in_use []) = Inr b \<and> health_server b = None)
   \<and> (\<exists>r. Called (run_polling polling_args) r \<in> set (snd (main example_config port_in_use))
         \<and> fst (main example_config port_in_use) = (case r of None \<Rightarrow> Inr () | Some e' \<Rightarrow> Inl e'))"
proof -
  have h1: "\<And>tr. port_in_use tr (HTTPServer (''0.0.0.0'', PORT example_config) HealthCheckHandler)
           = Some (Exn OSError ''[Errno 98] Address already in use'')"
    by (simp add: port_in_use_def)
  have h2: "is_Exception (class_of (Exn OSError ''[Errno 98] Address already in use''))"
    by simp
  have h3: "setup_failures (snd (main example_config port_in_use)) = []"
    by (simp add: main_port_in_use)
  show ?thesis
    using h1 h2 h3 health_bind_failure_not_fatal [of port_in_use example_config
        "Exn OSError ''[Errno 98] Address already in use''" new_bot, OF h1 h2]
    by simp
qed

section \<open>The arguments of \<open>run_polling\<close>\<close>

text \<open>
  Claim C4. Every call of \<open>run_polling\<close> that \<open>start()\<close> makes has poll interval 1.0, the
  value 10 for each of \<open>timeout\<close>, \<open>read_timeout\<close>, \<open>write_timeout\<close>, \<open>connect_timeout\<close> and
  \<open>pool_timeout\<close>, and \<open>drop_pending_updates\<close> set, the library's switch for discarding
  the updates that were pending before the session. \<open>start()\<close> makes at most one such call,
  makes it whenever the application is present and no health server has to be set up
  first, and returns normally only after having made it.
\<close>

theorem start_polling_configuration:
  "(\<forall>c r. Called (run_polling c) r \<in> set (new_events (trace s) (trace (snd (start cfg w s))))
      \<longrightarrow> c = \<lparr>poll_interval = 1.0, timeout = 10, read_timeout = 10, write_timeout = 10,
               connect_timeout = 10, pool_timeout = 10, drop_pending_updates = True\<rparr>)
   \<and> length (filter is_run_polling (new_events (trace s) (trace (snd (start cfg w s))))) \<le> 1
   \<and> (application (self s) \<noteq> None \<and> (\<not> HEALTH_CHECK_ENABLED cfg \<or> health_server (self s) \<noteq> None)
      \<longrightarrow> (\<exists>r. Called (run_polling
                \<lparr>poll_interval = 1.0, timeout = 10, read_timeout = 10, write_timeout = 10,
                 connect_timeout = 10, pool_timeout = 10, drop_pending_updates = True\<rparr>) r
              \<in> set (new_events (trace s) (trace (snd (start cfg w s))))))
   \<and> (fst (start cfg w s) = Inr ()
      \<longrightarrow> length (filter is_run_polling (new_events (trace s) (trace (snd (start cfg w s))))) = 1)"
proof -
  note n = start_new_events [of cfg w s]
  have a: "\<forall>c r. Called (run_polling c) r \<in> set (new_events (trace s) (trace (snd (start cfg w s))))
      \<longrightarrow> c = polling_args"
  proof (intro allI impI)
    fix c r
    assume "Called (run_polling c) r \<in> set (new_events (trace s) (trace (snd (start cfg w s))))"
    with n have "health_event cfg (Called (run_polling c) r) \<or> polling_event (Called (run_polling c) r)"
      by (auto simp: list_all_iff)
    then show "c = polling_args" by simp
  qed
  have b: "application (self s) \<noteq> None \<and> (\<not> HEALTH_CHECK_ENABLED cfg \<or> health_server (self s) \<noteq> None)
      \<longrightarrow> (\<exists>r. Called (run_polling polling_args) r
              \<in> set (new_events (trace s) (trace (snd (start cfg w s)))))"
  proof
    assume h: "application (self s) \<noteq> None \<and> (\<not> HEALTH_CHECK_ENABLED cfg \<or> health_server (self s) \<noteq> None)"
    have "\<exists>r. Called (run_polling polling_args) r
               \<in> set (new_events (trace s) (trace (snd (start cfg w s))))
             \<and> fst (start cfg w s) = (case r of None \<Rightarrow> Inr () | Some e' \<Rightarrow> Inl e')"
      by (rule start_polls) (use h in auto)
    then show "\<exists>r. Called (run_polling polling_args) r
              \<in> set (new_events (trace s) (trace (snd (start cfg w s))))"
      by blast
  qed
  from a b n show ?thesis
    unfolding polling_args_def by blast
qed

theorem start_polling_configuration_witness:
  "Called (run_polling
       \<lparr>poll_interval = 1.0, timeout = 10, read_timeout = 10, write_timeout = 10,
        connect_timeout = 10, pool_timeout = 10, drop_pending_updates = True\<rparr>) None
     \<in> set (new_events (trace running_bot)
              (trace (snd (start example_config quiet_world running_bot))))
   \<and> application (self running_bot) \<noteq> None
   \<and> health_server (self running_bot) \<noteq> None
   \<and> fst (start example_config quiet_world running_bot) = Inr ()
   \<and> length (filter is_run_polling (new_events (trace running_bot)
              (trace (snd (start example_config quiet_world running_bot))))) = 1"
proof -
  have h1: "Called (run_polling
       \<lparr>poll_interval = 1.0, timeout = 10, read_timeout = 10, write_timeout = 10,
        connect_timeout = 10, pool_timeout = 10, drop_pending_updates = True\<rparr>) None
     \<in> set (new_events (trace running_bot)
              (trace (snd (start example_config quiet_world running_bot))))"
    by (simp add: start_running_bot new_events_def polling_args_def trace_running_bot)
  have h2: "application (self running_bot) \<noteq> None" "health_server (self running_bot) \<noteq> None"
    by (simp_all add: running_bot_def)
  have h3: "fst (start example_config quiet_world running_bot) = Inr ()"
    by (simp add: start_running_bot)
  show ?thesis
    using h1 h2 h3 start_polling_configuration [of running_bot example_config quiet_world]
    by blast
qed

section \<open>The predicates of the message handlers overlap on edited text\<close>

text \<open>
  Claim C5, as stated: for every update at most one of the three message handlers'
  predicates matches. This fails: an edited plain-text message has non-empty text, is no
  command and is an edited message, so both \<open>TEXT & ~COMMAND\<close> and \<open>EDITED_MESSAGE\<close> match.
\<close>

theorem edited_text_matches_two_handlers:
  "matching_message_handlers edited_text_update =
     [MessageHandler (And_filter TEXT (Not_filter COMMAND)) handle_message,
      MessageHandler EDITED_MESSAGE handle_edited_message]
   \<and> \<not> length (matching_message_handlers edited_text_update) \<le> 1"
  by (simp add: matching_message_handlers_def registrations_def edited_text_update_def
      effective_message_def truthy_def starts_with_command_def)

text \<open>
  Claim C5, amended: among the updates of the platform's shape (a message that lists new
  chat members has no text and is not an edit), at most one of the three predicates matches
  for every update except an edited message whose text is non-empty and does not start with
  a bot command; such an update matches exactly two, the plain-text predicate and the
  edited-message predicate, in this order of registration.
\<close>

theorem message_predicates_exclusive_unless_edited_text:
  assumes "service_message_shape u"
  shows "(\<not> edited_plain_text u \<longrightarrow> length (matching_message_handlers u) \<le> 1)
       \<and> (edited_plain_text u \<longrightarrow>
            matching_message_handlers u =
              [MessageHandler (And_filter TEXT (Not_filter COMMAND)) handle_message,
               MessageHandler EDITED_MESSAGE handle_edited_message])"
proof (cases "effective_message u")
  case None
  then show ?thesis
    by (simp add: matching_message_handlers_def registrations_def edited_plain_text_def)
next
  case (Some m)
  with assms show ?thesis
    by (auto simp: matching_message_handlers_def registrations_def edited_plain_text_def
        service_message_shape_def)
qed

theorem message_predicates_exclusive_unless_edited_text_witness:
  "service_message_shape edited_command_update
   \<and> \<not> edited_plain_text edited_command_update
   \<and> matching_message_handlers edited_command_update
       = [MessageHandler EDITED_MESSAGE handle_edited_message]
   \<and> length (matching_message_handlers edited_command_update) \<le> 1
   \<and> service_message_shape edited_text_update
   \<and> edited_plain_text edited_text_update
   \<and> matching_message_handlers edited_text_update =
        [MessageHandler (And_filter TEXT (Not_filter COMMAND)) handle_message,
         MessageHandler EDITED_MESSAGE handle_edited_message]"
proof -
  have h1: "service_message_shape edited_command_update"
    by (simp add: service_message_shape_def edited_command_update_def effective_message_def)
  have h2: "\<not> edited_plain_text edited_command_update"
    by (simp add: edited_plain_text_def edited_command_update_def effective_message_def
        truthy_def starts_with_command_def)
  have h3: "matching_message_handlers edited_command_update
       = [MessageHandler EDITED_MESSAGE handle_edited_message]"
    by (simp add: matching_message_handlers_def registrations_def edited_command_update_def
        effective_message_def truthy_def starts_with_command_def)
  have h4: "service_message_shape edited_text_update"
    by (simp add: service_message_shape_def edited_text_update_def effective_message_def)
  have h5: "edited_plain_text edited_text_update"
    by (simp add: edited_plain_text_def edited_text_update_def effective_message_def
        truthy_def starts_with_command_def)
  show ?thesis
    using h1 h2 h3 h4 h5
      message_predicates_exclusive_unless_edited_text [OF h1]
      message_predicates_exclusive_unless_edited_text [OF h4]
    by blast
qed

section \<open>No health server without the flag\<close>

text \<open>
  Claim C6. When the health-check flag is false, neither the constructor nor \<open>start()\<close>
  creates an HTTP server (so no socket is opened on the port) or starts a thread; a bot
  that the constructor returns has no health server, and \<open>start()\<close> leaves the field as it
  found it.
\<close>

theorem health_server_disabled:
  assumes "\<not> HEALTH_CHECK_ENABLED cfg"
  shows "\<not> list_ex is_HTTPServer (new_events tr (snd (init cfg w tr)))
       \<and> \<not> list_ex is_Thread_start (new_events tr (snd (init cfg w tr)))
       \<and> (\<forall>b. fst (init cfg w tr) = Inr b \<longrightarrow> health_server b = None)
       \<and> \<not> list_ex is_HTTPServer (new_events (trace s) (trace (snd (start cfg w s))))
       \<and> \<not> list_ex is_Thread_start (new_events (trace s) (trace (snd (start cfg w s))))
       \<and> health_server (self (snd (start cfg w s))) = health_server (self s)"
proof -
  from init_new_events [of cfg tr w] assms
  have i: "list_all setup_event (new_events tr (snd (init cfg w tr)))"
    "\<forall>b. fst (init cfg w tr) = Inr b \<longrightarrow> health_server b = None"
    by simp_all
  from start_new_events [of cfg w s] assms
  have p: "list_all polling_event (new_events (trace s) (trace (snd (start cfg w s))))"
    "self (snd (start cfg w s)) = self s"
    by simp_all
  from i(1) have i1: "\<not> list_ex is_HTTPServer (new_events tr (snd (init cfg w tr)))"
    and i2: "\<not> list_ex is_Thread_start (new_events tr (snd (init cfg w tr)))"
    by (simp_all add: list_all_iff list_ex_iff)
  from p(1) have p1: "\<not> list_ex is_HTTPServer (new_events (trace s) (trace (snd (start cfg w s))))"
    and p2: "\<not> list_ex is_Thread_start (new_events (trace s) (trace (snd (start cfg w s))))"
    by (simp_all add: list_all_iff list_ex_iff)
  from i1 i2 i(2) p1 p2 p(2) show ?thesis by simp
qed

theorem health_server_disabled_witness:
  "\<not> HEALTH_CHECK_ENABLED example_config_no_health
   \<and> (\<exists>b. fst (init example_config_no_health quiet_world []) = Inr b \<and> health_server b = None)
   \<and> \<not> list_ex is_HTTPServer (new_events [] (snd (init example_config_no_health quiet_world [])))
   \<and> \<not> list_ex is_Thread_start (new_events [] (snd (init example_config_no_health quiet_world [])))
   \<and> \<not> list_ex is_HTTPServer (new_events (trace new_bot)
          (trace (snd (start example_config_no_health quiet_world new_bot))))
   \<and> health_server (self (snd (start example_config_no_health quiet_world new_bot)))
       = health_server (self new_bot)"
proof -
  have h1: "\<not> HEALTH_CHECK_ENABLED example_config_no_health"
    by (simp add: example_config_no_health_def)
  have h2: "\<exists>b. fst (init example_config_no_health quiet_world []) = Inr b"
    by (simp add: init_no_health)
  show ?thesis
    using h1 h2 health_server_disabled [OF h1, of "[]" quiet_world new_bot]
    by auto
qed

section \<open>At most one health server\<close>

text \<open>
  Claim C7. A \<open>start()\<close> on a bot that already has a health server creates no HTTP server
  and starts no thread, and keeps the server it has; in an execution of the entry point
  (construction, then \<open>start()\<close>) at most one HTTP server is created.
\<close>

theorem single_health_server:
  "(health_server (self s) \<noteq> None
      \<longrightarrow> \<not> list_ex is_HTTPServer (new_events (trace s) (trace (snd (start cfg w s))))
          \<and> \<not> list_ex is_Thread_start (new_events (trace s) (trace (snd (start cfg w s))))
          \<and> health_server (self (snd (start cfg w s))) = health_server (self s))
   \<and> servers_created (snd (main cfg w)) \<le> 1"
proof (intro conjI impI)
  assume h: "health_server (self s) \<noteq> None"
  from start_new_events [of cfg w s] h
  have p: "list_all polling_event (new_events (trace s) (trace (snd (start cfg w s))))"
    "self (snd (start cfg w s)) = self s"
    by simp_all
  from p(1) show "\<not> list_ex is_HTTPServer (new_events (trace s) (trace (snd (start cfg w s))))"
    by (simp add: list_all_iff list_ex_iff)
  from p(1) show "\<not> list_ex is_Thread_start (new_events (trace s) (trace (snd (start cfg w s))))"
    by (simp add: list_all_iff list_ex_iff)
  from p(2) show "health_server (self (snd (start cfg w s))) = health_server (self s)"
    by simp
next
  from main_trace [of cfg w] show "servers_created (snd (main cfg w)) \<le> 1"
    by blast
qed

theorem single_health_server_witness:
  "health_server (self running_bot) \<noteq> None
   \<and> \<not> list_ex is_HTTPServer (new_events (trace running_bot)
          (trace (snd (start example_config quiet_world running_bot))))
   \<and> \<not> list_ex is_Thread_start (new_events (trace running_bot)
          (trace (snd (start example_config quiet_world running_bot))))
   \<and> health_server (self (snd (start example_config quiet_world running_bot)))
       = health_server (self running_bot)
   \<and> servers_created (snd (main example_config quiet_world)) = 1"
proof -
  have h1: "health_server (self running_bot) \<noteq> None"
    by (simp add: running_bot_def)
  have h2: "servers_created (snd (main example_config quiet_world)) = 1"
    by (simp add: main_quiet_world servers_created_def)
  show ?thesis
    using h1 h2 single_health_server [of running_bot example_config quiet_world]
    by blast
qed

section \<open>How the health-check flag is resolved\<close>

text \<open>
  Claim C8, as stated: without an explicit value the flag is inferred from the presence of
  \<open>RENDER\<close> or \<open>RENDER_SERVICE_ID\<close> in the environment. This fails when a marker is present
  with the empty string as its value: \<open>RENDER\<close> is set, there is no explicit value, and
  the flag is false.
\<close>

theorem empty_marker_is_not_a_marker:
  "getenv render_set_empty ''RENDER'' = Some []
   \<and> \<not> import_HEALTH_CHECK_ENABLED None render_set_empty"
  by (simp add: import_HEALTH_CHECK_ENABLED_def getenv_def py_or_def truthy_def
      render_set_empty_def)

text \<open>
  Claim C8, amended: an explicit configuration value wins; without one the flag is true
  exactly when \<open>RENDER\<close> or \<open>RENDER_SERVICE_ID\<close> is set to a non-empty string, and false
  otherwise.
\<close>

theorem health_check_flag_precedence:
  "import_HEALTH_CHECK_ENABLED (Some v) env = v
   \<and> import_HEALTH_CHECK_ENABLED None env =
       ((\<exists>x. getenv env ''RENDER'' = Some x \<and> x \<noteq> [])
        \<or> (\<exists>x. getenv env ''RENDER_SERVICE_ID'' = Some x \<and> x \<noteq> []))"
  by (auto simp: import_HEALTH_CHECK_ENABLED_def py_or_def truthy_def split: option.splits)

section \<open>The serving thread is a daemon\<close>

text \<open>
  Claim C9. Every thread that \<open>setup_health_server\<close> starts has \<open>daemon=True\<close> and runs
  \<open>serve_forever\<close> of the health server; once the HTTP server has been created, starting
  that thread is the next thing \<open>setup_health_server\<close> does. In an execution of the entry
  point every thread started is of this kind and no thread is ever joined.
\<close>

theorem health_thread_is_daemon:
  "(\<forall>t d r. Called (Thread_start t d) r
               \<in> set (new_events (trace s) (trace (snd (setup_health_server cfg w s))))
      \<longrightarrow> d \<and> t = serve_forever
             \<lparr>server_address = (''0.0.0.0'', PORT cfg), RequestHandlerClass = HealthCheckHandler\<rparr>)
   \<and> (w (trace s) (HTTPServer (''0.0.0.0'', PORT cfg) HealthCheckHandler) = None
      \<longrightarrow> (\<exists>r. take 2 (new_events (trace s) (trace (snd (setup_health_server cfg w s))))
               = [Called (HTTPServer (''0.0.0.0'', PORT cfg) HealthCheckHandler) None,
                  Called (Thread_start (serve_forever
                     \<lparr>server_address = (''0.0.0.0'', PORT cfg),
                      RequestHandlerClass = HealthCheckHandler\<rparr>) True) r]))
   \<and> (\<forall>t d r. Called (Thread_start t d) r \<in> set (snd (main cfg w))
      \<longrightarrow> d \<and> t = serve_forever
             \<lparr>server_address = (''0.0.0.0'', PORT cfg), RequestHandlerClass = HealthCheckHandler\<rparr>)
   \<and> \<not> list_ex is_Thread_join (snd (main cfg w))"
proof (intro conjI allI impI)
  fix t d r
  assume "Called (Thread_start t d) r
            \<in> set (new_events (trace s) (trace (snd (setup_health_server cfg w s))))"
  then show "d" "t = serve_forever
             \<lparr>server_address = (''0.0.0.0'', PORT cfg), RequestHandlerClass = HealthCheckHandler\<rparr>"
    by (auto simp: health_unfold new_events_def split: option.splits if_splits)
next
  assume "w (trace s) (HTTPServer (''0.0.0.0'', PORT cfg) HealthCheckHandler) = None"
  then show "\<exists>r. take 2 (new_events (trace s) (trace (snd (setup_health_server cfg w s))))
               = [Called (HTTPServer (''0.0.0.0'', PORT cfg) HealthCheckHandler) None,
                  Called (Thread_start (serve_forever
                     \<lparr>server_address = (''0.0.0.0'', PORT cfg),
                      RequestHandlerClass = HealthCheckHandler\<rparr>) True) r]"
    by (simp add: health_unfold new_events_def split: option.splits)
next
  fix t d r
  assume a: "Called (Thread_start t d) r \<in> set (snd (main cfg w))"
  from main_trace [of cfg w] a
  have "setup_event (Called (Thread_start t d) r) \<or> health_event cfg (Called (Thread_start t d) r)
        \<or> polling_event (Called (Thread_start t d) r)"
    by (auto simp: list_all_iff)
  then show "d" "t = serve_forever
             \<lparr>server_address = (''0.0.0.0'', PORT cfg), RequestHandlerClass = HealthCheckHandler\<rparr>"
    by (auto simp: setup_event_def)
next
  from main_trace [of cfg w]
  have "list_all (\<lambda>ev. setup_event ev \<or> health_event cfg ev \<or> polling_event ev) (snd (main cfg w))"
    by blast
  then show "\<not> list_ex is_Thread_join (snd (main cfg w))"
    unfolding list_all_iff list_ex_iff using event_not_join by blast
qed

theorem health_thread_is_daemon_witness:
  "Called (Thread_start (serve_forever
       \<lparr>server_address = (''0.0.0.0'', 10000), RequestHandlerClass = HealthCheckHandler\<rparr>) True) None
     \<in> set (new_events (trace new_bot)
              (trace (snd (setup_health_server example_config quiet_world new_bot))))
   \<and> Called (Thread_start (serve_forever
       \<lparr>server_address = (''0.0.0.0'', 10000), RequestHandlerClass = HealthCheckHandler\<rparr>) True) None
     \<in> set (snd (main example_config quiet_world))
   \<and> quiet_world (trace new_bot) (HTTPServer (''0.0.0.0'', PORT example_config) HealthCheckHandler)
       = None
   \<and> PORT example_config = 10000
   \<and> (\<exists>r. take 2 (new_events (trace new_bot)
              (trace (snd (setup_health_server example_config quiet_world new_bot))))
          = [Called (HTTPServer (''0.0.0.0'', 10000) HealthCheckHandler) None,
             Called (Thread_start (serve_forever
                \<lparr>server_address = (''0.0.0.0'', 10000),
                 RequestHandlerClass = HealthCheckHandler\<rparr>) True) r])
   \<and> \<not> list_ex is_Thread_join (snd (main example_config quiet_world))"
proof -
  have h1: "Called (Thread_start (serve_forever
       \<lparr>server_address = (''0.0.0.0'', 10000), RequestHandlerClass = HealthCheckHandler\<rparr>) True) None
     \<in> set (new_events (trace new_bot)
              (trace (snd (setup_health_server example_config quiet_world new_bot))))"
    by (simp add: setup_health_server_quiet new_events_def trace_new_bot)
  have h2: "Called (Thread_start (serve_forever
       \<lparr>server_address = (''0.0.0.0'', 10000), RequestHandlerClass = HealthCheckHandler\<rparr>) True) None
     \<in> set (snd (main example_config quiet_world))"
    by (simp add: main_quiet_world)
  have h3: "quiet_world (trace new_bot)
              (HTTPServer (''0.0.0.0'', PORT example_config) HealthCheckHandler) = None"
    by (simp add: quiet_world_def)
  have h4: "PORT example_config = 10000"
    by (simp add: example_config_def)
  show ?thesis
    using h1 h2 h3 h4 health_thread_is_daemon [of new_bot example_config quiet_world]
    by simp
qed

section \<open>\<open>start()\<close> on an uninitialised bot\<close>

text \<open>
  Claim C10. When the \<open>application\<close> field is \<open>None\<close>, \<open>start()\<close> raises a \<open>RuntimeError\<close>;
  all it does before is log the error: it creates no HTTP server, starts no thread and does
  not call \<open>run_polling\<close>, and the fields of the bot are unchanged.
\<close>

theorem start_uninitialized_raises:
  assumes "application (self s) = None"
  shows "start cfg w s =
           (Inl (Exn RuntimeError ''Bot application not properly initialized''),
            s\<lparr>trace := trace s @
                 [Logged ERROR ''Error starting bot: Bot application not properly initialized'']\<rparr>)
         \<and> \<not> list_ex is_HTTPServer (new_events (trace s) (trace (snd (start cfg w s))))
         \<and> \<not> list_ex is_Thread_start (new_events (trace s) (trace (snd (start cfg w s))))
         \<and> \<not> list_ex is_run_polling (new_events (trace s) (trace (snd (start cfg w s))))"
  using assms by (simp add: start_def start_try_def logger_def new_events_def)

theorem start_uninitialized_raises_witness:
  "application (self new_bot) = None
   \<and> fst (start example_config quiet_world new_bot)
       = Inl (Exn RuntimeError ''Bot application not properly initialized'')
   \<and> trace (snd (start example_config quiet_world new_bot))
       = [Logged ERROR ''Error starting bot: Bot application not properly initialized'']
   \<and> \<not> list_ex is_run_polling (new_events (trace new_bot)
          (trace (snd (start example_config quiet_world new_bot))))"
proof -
  have h: "application (self new_bot) = None"
    by (simp add: new_bot_def)
  have t: "trace new_bot = []"
    by (simp add: new_bot_def)
  show ?thesis
    using h t start_uninitialized_raises [OF h, of example_config quiet_world]
    by (simp add: new_events_def)
qed

end
